theory Spec2Isabelle
  imports Main "HOL-Library.Word" "HOL-Library.Monad_Syntax"
begin

unbundle bit_operations_syntax

section \<open>Common types\<close>

type_synonym byte = "8 word"
type_synonym uint32 = "32 word"

text \<open>
  Functions return \<open>Some\<close> of their result. \<open>None\<close> stands for an execution without a
  defined result: an access outside an array or a vector (undefined behaviour in
  C++), or a loop that does not end.

  Conversion of a \<open>std::size_t\<close> value to \<open>int\<close>: the low 32 bits, read as two's
  complement. Differences of two \<open>size_t\<close> values wrap around modulo \<open>2 ^ 64\<close>.
\<close>

definition size_t_sub :: "nat \<Rightarrow> nat \<Rightarrow> nat" where
  "size_t_sub a b = (a + 2 ^ 64 - b mod 2 ^ 64) mod 2 ^ 64"

definition int_of_size_t :: "nat \<Rightarrow> int" where
  "int_of_size_t n = (let m = int (n mod 2 ^ 32) in if m < 2 ^ 31 then m else m - 2 ^ 32)"

definition value_or :: "'a option \<Rightarrow> 'a \<Rightarrow> 'a" where
  "value_or v d = (case v of None \<Rightarrow> d | Some x \<Rightarrow> x)"

section \<open>mini-adler32.h\<close>

definition base :: uint32 where "base = 65521"
definition initial_Adler32 :: uint32 where "initial_Adler32 = 1"

text \<open>\<open>Adler32::Update\<close> on the running value; the loop is a fold over the bytes.\<close>

definition adler_step :: "uint32 \<times> uint32 \<Rightarrow> byte \<Rightarrow> uint32 \<times> uint32" where
  "adler_step s b = (case s of (s1, s2) \<Rightarrow>
     (let s1' = (s1 + ucast b) mod base in (s1', (s2 + s1') mod base)))"

definition Update :: "uint32 \<Rightarrow> byte list \<Rightarrow> uint32" where
  "Update v bytes =
    (case foldl adler_step (v AND 0xffff, drop_bit 16 v AND 0xffff) bytes of
       (s1, s2) \<Rightarrow> push_bit 16 s2 + s1)"

section \<open>mini-deflate.h: constants and tables\<close>

datatype deflate_Result =
    deflate_OK
  | LengthCorrupt
  | InvalidBlockType
  | CorruptSymbol
  | EndOfStream
  | InvalidDynamicReference
  | CorruptDistance
  | InvalidSymbol

definition MAX_BITS :: int where "MAX_BITS = 15"
definition SYMBOL_LITERAL_FIRST :: int where "SYMBOL_LITERAL_FIRST = 0"
definition SYMBOL_LITERAL_LAST :: int where "SYMBOL_LITERAL_LAST = 255"
definition SYMBOL_EOS :: int where "SYMBOL_EOS = 256"
definition SYMBOL_REPEAT_FIRST :: int where "SYMBOL_REPEAT_FIRST = 257"
definition SYMBOL_REPEAT_LAST :: int where "SYMBOL_REPEAT_LAST = 285"

definition repeat_offset_base :: "int list" where
  "repeat_offset_base = [3, 4, 5, 6, 7, 8, 9, 10, 11, 13, 15, 17, 19, 23, 27, 31, 35, 43, 51, 59,
     67, 83, 99, 115, 131, 163, 195, 227, 258]"

definition repeat_extra_bits :: "nat list" where
  "repeat_extra_bits = [0, 0, 0, 0, 0, 0, 0, 0, 1, 1, 1, 1, 2, 2, 2, 2, 3, 3, 3, 3,
     4, 4, 4, 4, 5, 5, 5, 5, 0]"

definition dist_base :: "int list" where
  "dist_base = [1, 2, 3, 4, 5, 7, 9, 13, 17, 25, 33, 49, 65, 97, 129, 193, 257, 385, 513, 769,
     1025, 1537, 2049, 3073, 4097, 6145, 8193, 12289, 16385, 24577]"

definition dist_bits :: "nat list" where
  "dist_bits = [0, 0, 0, 0, 1, 1, 2, 2, 3, 3, 4, 4, 5, 5, 6, 6, 7, 7, 8, 8, 9, 9,
     10, 10, 11, 11, 12, 12, 13, 13]"

definition codelen_order :: "nat list" where
  "codelen_order = [16, 17, 18, 0, 8, 7, 9, 6, 10, 5, 11, 4, 12, 3, 13, 2, 14, 1, 15]"

section \<open>mini-deflate.h: the code tree\<close>

text \<open>The fields \<open>symbol\<close>, \<open>length\<close> and \<open>code\<close> of \<open>TreeNode\<close>.\<close>

record TreeNode =
  node_symbol :: int
  node_length :: int
  node_code :: int

record Tree =
  min_bits :: int
  max_bits :: int
  nodes :: "TreeNode list"

text \<open>
  Step 1 of \<open>BuildCodeTree\<close>, one code length at a time: \<open>bl_count\<close> is the
  \<open>std::array<int, MAX_BITS>\<close>, whose valid indices are \<open>0 .. MAX_BITS - 1\<close>.
\<close>

fun tally :: "int list \<Rightarrow> int list \<times> int \<times> int \<Rightarrow> (int list \<times> int \<times> int) option" where
  "tally [] s = Some s"
| "tally (cl # cls) (bl_count, min_bits', max_bits') =
     (if 0 \<le> cl \<and> nat cl < length bl_count then
        tally cls (bl_count[nat cl := bl_count ! nat cl + 1],
                   if cl \<noteq> 0 then min min_bits' cl else min_bits',
                   if cl \<noteq> 0 then max max_bits' cl else max_bits')
      else None)"

text \<open>
  Step 2: \<open>next_code\<close> is the \<open>std::array<int, MAX_BITS + 1>\<close>; the loop runs over
  \<open>bits = 1 .. MAX_BITS\<close> and carries \<open>code\<close>.
\<close>

fun smallest_codes :: "int list \<Rightarrow> nat list \<Rightarrow> int \<Rightarrow> int list \<Rightarrow> int list" where
  "smallest_codes bl_count [] code next_code = next_code"
| "smallest_codes bl_count (bits # rest) code next_code =
     (let code' = push_bit 1 (code + bl_count ! (bits - 1))
      in smallest_codes bl_count rest code' (next_code[bits := code']))"

text \<open>
  Step 3: one node per symbol. The index into \<open>next_code\<close> is a code length that
  step 1 has accepted, so it is below \<open>MAX_BITS\<close>.
\<close>

fun assign_codes :: "nat \<Rightarrow> int list \<Rightarrow> int list \<Rightarrow> TreeNode list" where
  "assign_codes n [] next_code = []"
| "assign_codes n (symbol_length # cls) next_code =
     (if symbol_length \<noteq> 0 then
        \<lparr>node_symbol = int n, node_length = symbol_length,
         node_code = (next_code ! nat symbol_length) AND (push_bit (nat symbol_length) 1 - 1)\<rparr>
          # assign_codes (n + 1) cls
              (next_code[nat symbol_length := next_code ! nat symbol_length + 1])
      else \<lparr>node_symbol = int n, node_length = 0, node_code = 0\<rparr> # assign_codes (n + 1) cls next_code)"

definition BuildCodeTree :: "int list \<Rightarrow> Tree option" where
  "BuildCodeTree cls =
    (case tally cls (replicate (nat MAX_BITS) 0, MAX_BITS + 1, - 1) of
       None \<Rightarrow> None
     | Some (bl_count, min_bits', max_bits') \<Rightarrow>
         let next_code = smallest_codes bl_count [1..<nat MAX_BITS + 1] 0
                           (replicate (nat MAX_BITS + 1) 0)
         in Some \<lparr>min_bits = min_bits', max_bits = max_bits',
                   nodes = assign_codes 0 cls next_code\<rparr>)"

definition GetFixedLengthTree :: "Tree option" where
  "GetFixedLengthTree =
     BuildCodeTree (replicate 144 8 @ replicate 112 9 @ replicate 24 7 @ replicate 8 8)"

definition GetFixedDistanceTree :: "Tree option" where
  "GetFixedDistanceTree = BuildCodeTree (replicate 30 5)"

section \<open>mini-deflate.h: the bit streamer\<close>

record BitStreamer =
  bits_data :: "byte list"
  byte_pos :: nat
  bit_pos :: nat
  bit_buf :: uint32
  bit_in_buf :: nat

definition BitStreamer_init :: "byte list \<Rightarrow> BitStreamer" where
  "BitStreamer_init d = \<lparr>bits_data = d, byte_pos = 0, bit_pos = 0, bit_buf = 0, bit_in_buf = 0\<rparr>"

definition bits_eof :: "BitStreamer \<Rightarrow> bool" where
  "bits_eof bs = (bit_in_buf bs = 0 \<and> byte_pos bs = length (bits_data bs))"

text \<open>
  \<open>GetDataBits\<close>: the refill loop reads \<open>data[byte_pos]\<close> whenever \<open>eof()\<close> is false,
  which is also the case when bits are left in the buffer and no byte is left in the
  data; that read is outside the data.
\<close>

function GetDataBits :: "nat \<Rightarrow> BitStreamer \<Rightarrow> (int option \<times> BitStreamer) option" where
  "GetDataBits need bs =
    (if bit_in_buf bs < need then
       (if bits_eof bs then Some (None, bs)
        else if byte_pos bs < length (bits_data bs) then
          GetDataBits need
            (bs\<lparr>bit_buf := bit_buf bs OR push_bit (bit_in_buf bs) (ucast (bits_data bs ! byte_pos bs)),
                bit_in_buf := bit_in_buf bs + 8,
                byte_pos := byte_pos bs + 1\<rparr>)
        else None)
     else Some (Some (uint (bit_buf bs AND (push_bit need 1 - 1))),
                bs\<lparr>bit_buf := drop_bit need (bit_buf bs), bit_in_buf := bit_in_buf bs - need\<rparr>))"
  by pat_completeness auto
termination
  by (relation "measure (\<lambda>(need, bs). need - bit_in_buf bs)") auto

declare GetDataBits.simps [simp del]

definition GetBit :: "BitStreamer \<Rightarrow> (int option \<times> BitStreamer) option" where
  "GetBit bs = GetDataBits 1 bs"

fun GetHuffmanBits_loop :: "nat \<Rightarrow> int \<Rightarrow> BitStreamer \<Rightarrow> (int option \<times> BitStreamer) option" where
  "GetHuffmanBits_loop 0 v bs = Some (Some v, bs)"
| "GetHuffmanBits_loop (Suc n) v bs =
     (case GetBit bs of
        None \<Rightarrow> None
      | Some (None, bs') \<Rightarrow> Some (None, bs')
      | Some (Some b, bs') \<Rightarrow> GetHuffmanBits_loop n (push_bit 1 v OR b) bs')"

definition GetHuffmanBits :: "int \<Rightarrow> BitStreamer \<Rightarrow> (int option \<times> BitStreamer) option" where
  "GetHuffmanBits need bs = GetHuffmanBits_loop (nat need) 0 bs"

fun SkipUntilByteBoundary_loop :: "nat \<Rightarrow> BitStreamer \<Rightarrow> BitStreamer option" where
  "SkipUntilByteBoundary_loop 0 bs = Some bs"
| "SkipUntilByteBoundary_loop (Suc n) bs =
     (if bits_eof bs then Some bs
      else case GetBit bs of None \<Rightarrow> None | Some (b, bs') \<Rightarrow> SkipUntilByteBoundary_loop n bs')"

definition SkipUntilByteBoundary :: "BitStreamer \<Rightarrow> BitStreamer option" where
  "SkipUntilByteBoundary bs =
    (if bit_in_buf bs = 0 \<or> bit_in_buf bs = 8 then Some bs
     else SkipUntilByteBoundary_loop (bit_in_buf bs) bs)"

section \<open>mini-deflate.h: symbols, trees and blocks\<close>

text \<open>
  The result of a step of the decoder: a value with the streamer behind it, or the
  error \<open>Result\<close> that the step returns, with the streamer as it is left.
\<close>

datatype 'a outcome = Value 'a BitStreamer | Failure deflate_Result BitStreamer

definition bits_left :: "BitStreamer \<Rightarrow> nat" where
  "bits_left bs = 8 * (length (bits_data bs) - byte_pos bs) + bit_in_buf bs"

lemma GetBit_bits_left:
  assumes "GetBit bs = Some (Some b, bs')"
  shows "bits_left bs' < bits_left bs"
proof (cases "bit_in_buf bs = 0")
  case True
  define bs1 where "bs1 = bs\<lparr>bit_buf := bit_buf bs OR push_bit (bit_in_buf bs) (ucast (bits_data bs ! byte_pos bs)),
        bit_in_buf := bit_in_buf bs + 8, byte_pos := byte_pos bs + 1\<rparr>"
  have r: "GetDataBits 1 bs1 = Some (Some (uint (bit_buf bs1 AND (push_bit 1 1 - 1))),
      bs1\<lparr>bit_buf := drop_bit 1 (bit_buf bs1), bit_in_buf := bit_in_buf bs1 - 1\<rparr>)"
    by (subst GetDataBits.simps) (simp add: bs1_def)
  from assms True have lt: "byte_pos bs < length (bits_data bs)"
    unfolding GetBit_def by (subst (asm) GetDataBits.simps) (simp split: if_splits)
  from assms True lt have "GetDataBits 1 bs1 = Some (Some b, bs')"
    unfolding GetBit_def bs1_def by (subst (asm) GetDataBits.simps) (simp add: bits_eof_def)
  with r have "bs' = bs1\<lparr>bit_buf := drop_bit 1 (bit_buf bs1), bit_in_buf := bit_in_buf bs1 - 1\<rparr>"
    by simp
  with True lt show ?thesis by (simp add: bits_left_def bs1_def)
next
  case False
  with assms have "bs' = bs\<lparr>bit_buf := drop_bit 1 (bit_buf bs), bit_in_buf := bit_in_buf bs - 1\<rparr>"
    unfolding GetBit_def by (subst (asm) GetDataBits.simps) simp
  with False show ?thesis by (simp add: bits_left_def)
qed

function GetSymbol_loop :: "Tree \<Rightarrow> int \<Rightarrow> int \<Rightarrow> BitStreamer \<Rightarrow> int outcome option" where
  "GetSymbol_loop tree cur_code cur_bits bs =
    (case find (\<lambda>n. node_code n = cur_code \<and> node_length n = cur_bits) (nodes tree) of
       Some it \<Rightarrow> Some (Value (node_symbol it) bs)
     | None \<Rightarrow>
         if cur_bits = max_bits tree then Some (Failure CorruptSymbol bs)
         else (case GetBit bs of
                 None \<Rightarrow> None
               | Some (None, bs') \<Rightarrow> Some (Failure EndOfStream bs')
               | Some (Some b, bs') \<Rightarrow>
                   GetSymbol_loop tree (push_bit 1 cur_code OR b) (cur_bits + 1) bs'))"
  by pat_completeness auto
termination
  by (relation "measure (\<lambda>(tree, cur_code, cur_bits, bs). bits_left bs)")
     (auto dest: GetBit_bits_left)

declare GetSymbol_loop.simps [simp del]

definition GetSymbol :: "BitStreamer \<Rightarrow> Tree \<Rightarrow> int outcome option" where
  "GetSymbol bs tree =
    (case GetHuffmanBits (min_bits tree) bs of
       None \<Rightarrow> None
     | Some (None, bs') \<Rightarrow> Some (Failure EndOfStream bs')
     | Some (Some hb, bs') \<Rightarrow> GetSymbol_loop tree hb (min_bits tree) bs')"

text \<open>\<open>ConstructDynamicTrees\<close>: the loop over the first \<open>hclen\<close> entries of \<open>codelen_order\<close>.\<close>

fun read_code_lengths :: "nat list \<Rightarrow> int list \<Rightarrow> BitStreamer \<Rightarrow> (int list \<times> BitStreamer) option" where
  "read_code_lengths [] code_lengths bs = Some (code_lengths, bs)"
| "read_code_lengths (k # ks) code_lengths bs =
     do { (v, bs') \<leftarrow> GetDataBits 3 bs;
          read_code_lengths ks (code_lengths[k := value_or v 0]) bs' }"

text \<open>The loop \<open>while (bl_count.size() < hlit + hdist)\<close>, with \<open>n_lengths = hlit + hdist\<close>.\<close>

partial_function (option) read_symbol_lengths ::
  "Tree \<Rightarrow> nat \<Rightarrow> BitStreamer \<Rightarrow> int list \<Rightarrow> int list outcome option" where
  "read_symbol_lengths code_tree n_lengths bs bl_count =
    (if length bl_count < n_lengths then
       do { r \<leftarrow> GetSymbol bs code_tree;
            case r of
              Failure e bs1 \<Rightarrow> Some (Failure e bs1)
            | Value symbol bs1 \<Rightarrow>
                if 0 \<le> symbol \<and> symbol \<le> 15 then
                  read_symbol_lengths code_tree n_lengths bs1 (bl_count @ [symbol])
                else if symbol = 16 then
                  (if bl_count = [] then Some (Failure InvalidDynamicReference bs1)
                   else do { (v, bs2) \<leftarrow> GetDataBits 2 bs1;
                             read_symbol_lengths code_tree n_lengths bs2
                               (bl_count @ replicate (nat (value_or v 0 + 3)) (last bl_count)) })
                else if symbol = 17 then
                  do { (v, bs2) \<leftarrow> GetDataBits 3 bs1;
                       read_symbol_lengths code_tree n_lengths bs2
                         (bl_count @ replicate (nat (value_or v 0 + 3)) 0) }
                else if symbol = 18 then
                  do { (v, bs2) \<leftarrow> GetDataBits 7 bs1;
                       read_symbol_lengths code_tree n_lengths bs2
                         (bl_count @ replicate (nat (value_or v 0 + 11)) 0) }
                else read_symbol_lengths code_tree n_lengths bs1 bl_count }
     else Some (Value bl_count bs))"

definition ConstructDynamicTrees :: "BitStreamer \<Rightarrow> (Tree \<times> Tree) outcome option" where
  "ConstructDynamicTrees bs =
    do { (a, bs1) \<leftarrow> GetDataBits 5 bs;
         (b, bs2) \<leftarrow> GetDataBits 5 bs1;
         (c, bs3) \<leftarrow> GetDataBits 4 bs2;
         let hlit = value_or a 0 + 257;
         let hdist = value_or b 0 + 1;
         let hclen = value_or c 0 + 4;
         (code_lengths, bs4) \<leftarrow>
           read_code_lengths (take (nat hclen) codelen_order) (replicate (length codelen_order) 0) bs3;
         code_tree \<leftarrow> BuildCodeTree code_lengths;
         r \<leftarrow> read_symbol_lengths code_tree (nat (hlit + hdist)) bs4 [];
         case r of
           Failure e bs5 \<Rightarrow> Some (Failure e bs5)
         | Value bl_count bs5 \<Rightarrow>
             do { len_tree \<leftarrow> BuildCodeTree (take (nat hlit) bl_count);
                  dist_tree \<leftarrow> BuildCodeTree (drop (nat hlit) bl_count);
                  Some (Value (len_tree, dist_tree) bs5) } }"

text \<open>
  The copy loop of a back-reference: \<open>pos\<close> is an \<open>int\<close>, \<open>output[pos]\<close> is read and
  pushed \<open>total_length\<close> times.
\<close>

fun copy_bytes :: "nat \<Rightarrow> int \<Rightarrow> byte list \<Rightarrow> byte list option" where
  "copy_bytes 0 pos output = Some output"
| "copy_bytes (Suc n) pos output =
     (if 0 \<le> pos \<and> nat pos < length output
      then copy_bytes n (pos + 1) (output @ [output ! nat pos])
      else None)"

text \<open>The distance check and the copy, once \<open>total_length\<close> and \<open>dist\<close> are known.\<close>

definition copy_match :: "byte list \<Rightarrow> int \<Rightarrow> int \<Rightarrow> BitStreamer \<Rightarrow> byte list outcome option" where
  "copy_match output total_length dist bs =
    (if length output < nat dist then Some (Failure CorruptDistance bs)
     else do { output' \<leftarrow> copy_bytes (nat total_length)
                             (int_of_size_t (size_t_sub (length output) (nat dist))) output;
               Some (Value output' bs) })"

text \<open>The branch of \<open>DecompressBlock\<close> for a symbol between 257 and 285.\<close>

definition back_reference :: "Tree \<Rightarrow> int \<Rightarrow> BitStreamer \<Rightarrow> byte list \<Rightarrow> byte list outcome option" where
  "back_reference dist_tree symbol bs output =
    do { let n = nat (symbol - SYMBOL_REPEAT_FIRST);
         (extra, bs1) \<leftarrow> GetDataBits (repeat_extra_bits ! n) bs;
         let total_length = repeat_offset_base ! n + value_or extra 0;
         r \<leftarrow> GetSymbol bs1 dist_tree;
         case r of
           Failure e bs2 \<Rightarrow> Some (Failure e bs2)
         | Value d_symbol bs2 \<Rightarrow>
             if 0 \<le> d_symbol \<and> nat d_symbol < length dist_base then
               do { (dextra, bs3) \<leftarrow> GetDataBits (dist_bits ! nat d_symbol) bs2;
                    let dist = dist_base ! nat d_symbol + value_or dextra 0;
                    copy_match output total_length dist bs3 }
             else None }"


partial_function (option) DecompressBlock ::
  "Tree \<Rightarrow> Tree \<Rightarrow> BitStreamer \<Rightarrow> byte list \<Rightarrow> byte list outcome option" where
  "DecompressBlock len_tree dist_tree bs output =
    do { r \<leftarrow> GetSymbol bs len_tree;
         case r of
           Failure e bs1 \<Rightarrow> Some (Failure e bs1)
         | Value symbol bs1 \<Rightarrow>
             if symbol = SYMBOL_EOS then Some (Value output bs1)
             else if SYMBOL_LITERAL_FIRST \<le> symbol \<and> symbol \<le> SYMBOL_LITERAL_LAST then
               DecompressBlock len_tree dist_tree bs1
                 (output @ [word_of_int (symbol - SYMBOL_LITERAL_FIRST)])
             else if SYMBOL_REPEAT_FIRST \<le> symbol \<and> symbol \<le> SYMBOL_REPEAT_LAST then
               do { r2 \<leftarrow> back_reference dist_tree symbol bs1 output;
                    case r2 of
                      Failure e bs2 \<Rightarrow> Some (Failure e bs2)
                    | Value output' bs2 \<Rightarrow> DecompressBlock len_tree dist_tree bs2 output' }
             else Some (Failure InvalidSymbol bs1) }"

text \<open>The stored block of \<open>Decompress\<close>: the lambda \<open>getLength\<close> and the byte loop.\<close>

definition getLength :: "BitStreamer \<Rightarrow> (int option \<times> BitStreamer) option" where
  "getLength bs =
    do { (v, bs1) \<leftarrow> GetDataBits 8 bs;
         (w, bs2) \<leftarrow> GetDataBits 8 bs1;
         if v = None \<or> w = None then Some (None, bs2)
         else Some (Some (take_bit 16 (the v OR push_bit 8 (the w))), bs2) }"

fun read_stored :: "nat \<Rightarrow> BitStreamer \<Rightarrow> byte list \<Rightarrow> byte list outcome option" where
  "read_stored 0 bs output = Some (Value output bs)"
| "read_stored (Suc n) bs output =
     do { (c, bs') \<leftarrow> GetDataBits 8 bs;
          if c = None then Some (Failure EndOfStream bs')
          else read_stored n bs' (output @ [word_of_int (the c)]) }"

definition stored_block :: "BitStreamer \<Rightarrow> byte list outcome option" where
  "stored_block bs =
    do { bs1 \<leftarrow> SkipUntilByteBoundary bs;
         (len, bs2) \<leftarrow> getLength bs1;
         (nlen, bs3) \<leftarrow> getLength bs2;
         if len = None \<or> nlen = None then Some (Failure EndOfStream bs3)
         else if NOT (the len) AND 0xffff \<noteq> the nlen then Some (Failure LengthCorrupt bs3)
         else read_stored (nat (the len)) bs3 [] }"

definition fixed_block :: "BitStreamer \<Rightarrow> byte list outcome option" where
  "fixed_block bs =
    do { len_tree \<leftarrow> GetFixedLengthTree;
         dist_tree \<leftarrow> GetFixedDistanceTree;
         DecompressBlock len_tree dist_tree bs [] }"

definition dynamic_block :: "BitStreamer \<Rightarrow> byte list outcome option" where
  "dynamic_block bs =
    do { t \<leftarrow> ConstructDynamicTrees bs;
         case t of
           Failure e bs1 \<Rightarrow> Some (Failure e bs1)
         | Value (len_tree, dist_tree) bs1 \<Rightarrow> DecompressBlock len_tree dist_tree bs1 [] }"

text \<open>The \<open>switch\<close> on the block type; type 3 returns \<open>InvalidBlockType\<close>.\<close>

definition decode_block :: "int \<Rightarrow> BitStreamer \<Rightarrow> byte list outcome option" where
  "decode_block btype bs =
    (if btype = 0 then stored_block bs
     else if btype = 1 then fixed_block bs
     else if btype = 2 then dynamic_block bs
     else Some (Failure InvalidBlockType bs))"

text \<open>
  \<open>mini_deflate::Decompress\<close>: \<open>callbackFn\<close> acts on the caller's state \<open>st\<close>. The loop ends with
  \<open>if (bfinal) break;\<close>, where \<open>bfinal\<close> is the \<open>std::optional<int>\<close> that
  \<open>GetDataBits(1)\<close> returned: the test is whether it holds a value.
\<close>

partial_function (option) deflate_Decompress ::
  "(byte list \<Rightarrow> 's \<Rightarrow> 's) \<Rightarrow> BitStreamer \<Rightarrow> 's \<Rightarrow> (deflate_Result \<times> BitStreamer \<times> 's) option" where
  "deflate_Decompress callbackFn bs st =
    do { (bfinal, bs1) \<leftarrow> GetDataBits 1 bs;
         (btype, bs2) \<leftarrow> GetDataBits 2 bs1;
         if bfinal = None \<or> btype = None then Some (EndOfStream, bs2, st)
         else
           do { blk \<leftarrow> decode_block (the btype) bs2;
                case blk of
                  Failure e bs3 \<Rightarrow> Some (e, bs3, st)
                | Value output bs3 \<Rightarrow>
                    if bfinal \<noteq> None then Some (deflate_OK, bs3, callbackFn output st)
                    else deflate_Decompress callbackFn bs3 (callbackFn output st) } }"

declare read_symbol_lengths.simps [code]
declare DecompressBlock.simps [code]
declare deflate_Decompress.simps [code]

section \<open>mini-png.h: byte streamer\<close>

record ByteStreamer =
  data :: "byte list"
  pos :: nat

definition eof :: "ByteStreamer \<Rightarrow> bool" where
  "eof s = (pos s \<ge> length (data s))"

definition GetByte :: "ByteStreamer \<Rightarrow> byte option \<times> ByteStreamer" where
  "GetByte s = (if eof s then (None, s) else (Some (data s ! pos s), s\<lparr>pos := pos s + 1\<rparr>))"

definition Skip :: "nat \<Rightarrow> ByteStreamer \<Rightarrow> ByteStreamer" where
  "Skip n s = s\<lparr>pos := pos s + n\<rparr>"

text \<open>\<open>Get<Value>\<close> for a one-byte and for a four-byte \<open>Value\<close>, in network order.\<close>

definition Get8 :: "ByteStreamer \<Rightarrow> byte option \<times> ByteStreamer" where
  "Get8 s = (case GetByte s of
      (None, s1) \<Rightarrow> (None, s1)
    | (Some b, s1) \<Rightarrow> (Some (push_bit 8 0 OR b), s1))"

fun Get32_loop :: "nat \<Rightarrow> uint32 \<Rightarrow> ByteStreamer \<Rightarrow> uint32 option \<times> ByteStreamer" where
  "Get32_loop 0 v s = (Some v, s)"
| "Get32_loop (Suc n) v s = (case GetByte s of
      (None, s1) \<Rightarrow> (None, s1)
    | (Some b, s1) \<Rightarrow> Get32_loop n (push_bit 8 v OR ucast b) s1)"

definition Get32 :: "ByteStreamer \<Rightarrow> uint32 option \<times> ByteStreamer" where
  "Get32 s = Get32_loop 4 0 s"


section \<open>mini-zlib.h\<close>

definition compressionMethod_deflate :: int where "compressionMethod_deflate = 8"
definition flag_FDICT :: int where "flag_FDICT = 32"

datatype zlib_Result =
    zlib_OK
  | PrematureEndOfStream
  | zlib_UnsupportedCompressionMethod
  | HeaderChecksumError
  | DeflateError
  | ChecksumError

text \<open>\<open>mini_adler32::ReadChecksum\<close>: only the fourth byte is required to be present.\<close>

definition ReadChecksum :: "ByteStreamer \<Rightarrow> uint32 option \<times> ByteStreamer" where
  "ReadChecksum s =
    (case GetByte s of (b1, s1) \<Rightarrow>
     case GetByte s1 of (b2, s2) \<Rightarrow>
     case GetByte s2 of (b3, s3) \<Rightarrow>
     case GetByte s3 of (c4, s4) \<Rightarrow>
       let c1 = push_bit 24 (ucast (value_or b1 0) :: uint32);
           c2 = push_bit 16 (ucast (value_or b2 0) :: uint32);
           c3 = push_bit 8 (ucast (value_or b3 0) :: uint32)
       in if c4 = None then (None, s4)
          else (Some (c1 OR c2 OR c3 OR ucast (the c4)), s4))"

text \<open>The loop \<open>for (n = 2 + sizeof(Value); n < length; n++)\<close> that collects the payload.\<close>

function read_compressed ::
  "nat \<Rightarrow> nat \<Rightarrow> ByteStreamer \<Rightarrow> byte list \<Rightarrow> byte list option \<times> ByteStreamer" where
  "read_compressed n len s compressedData =
    (if n < len then
       (case GetByte s of
          (None, s') \<Rightarrow> (None, s')
        | (Some v, s') \<Rightarrow> read_compressed (n + 1) len s' (compressedData @ [v]))
     else (Some compressedData, s))"
  by pat_completeness auto
termination
  by (relation "measure (\<lambda>(n, len, s, c). len - n)") auto

declare read_compressed.simps [simp del]

text \<open>
  \<open>mini_zlib::Decompress\<close> up to the point where the DEFLATE decoder is started: it
  returns early with a result, or it has the payload and the checksum of the trailer.
\<close>

definition read_stream ::
  "ByteStreamer \<Rightarrow> nat \<Rightarrow> (zlib_Result \<times> ByteStreamer) + (byte list \<times> uint32 \<times> ByteStreamer)" where
  "read_stream s len =
    (case GetByte s of (cmf, s1) \<Rightarrow>
     case GetByte s1 of (flg, s2) \<Rightarrow>
     if cmf = None \<or> flg = None then Inl (PrematureEndOfStream, s2)
     else
       let cm = uint (the cmf) AND 0xf;
           cinfo = drop_bit 4 (uint (the cmf)) AND 0xf
       in if cm \<noteq> compressionMethod_deflate then Inl (zlib_UnsupportedCompressionMethod, s2)
          else if (uint (the cmf) * 256 + uint (the flg)) mod 31 \<noteq> 0
            then Inl (HeaderChecksumError, s2)
          else
            let fdict = (uint (the flg) AND flag_FDICT \<noteq> 0);
                s3 = (if fdict then Skip 4 s2 else s2)
            in case read_compressed (2 + 4) len s3 [] of
                 (None, s4) \<Rightarrow> Inl (PrematureEndOfStream, s4)
               | (Some compressedData, s4) \<Rightarrow>
                   (case ReadChecksum s4 of
                      (None, s5) \<Rightarrow> Inl (PrematureEndOfStream, s5)
                    | (Some checksum, s5) \<Rightarrow> Inr (compressedData, checksum, s5)))"

text \<open>
  The callback given to the DEFLATE decoder updates the Adler-32 value and forwards
  the fragment: its state is the pair of both.
\<close>

definition adler_callback :: "(byte list \<Rightarrow> 's \<Rightarrow> 's) \<Rightarrow> byte list \<Rightarrow> uint32 \<times> 's \<Rightarrow> uint32 \<times> 's" where
  "adler_callback callback output a = (case a of (adler, st) \<Rightarrow> (Update adler output, callback output st))"

definition zlib_Decompress ::
  "ByteStreamer \<Rightarrow> nat \<Rightarrow> (byte list \<Rightarrow> 's \<Rightarrow> 's) \<Rightarrow> 's \<Rightarrow> (zlib_Result \<times> ByteStreamer \<times> 's) option" where
  "zlib_Decompress s len callback st =
    (case read_stream s len of
       Inl (res, s') \<Rightarrow> Some (res, s', st)
     | Inr (compressedData, checksum, s') \<Rightarrow>
         (case deflate_Decompress (adler_callback callback) (BitStreamer_init compressedData)
                 (initial_Adler32, st) of
            None \<Rightarrow> None
          | Some (result, bis, adler, st') \<Rightarrow>
              if result \<noteq> deflate_OK then Some (ChecksumError, s', st')
              else if adler \<noteq> checksum then Some (ChecksumError, s', st')
              else Some (zlib_OK, s', st')))"

section \<open>mini-png.h: fields, checks and the image header\<close>

definition png_signature :: "byte list" where
  "png_signature = [137, 80, 78, 71, 13, 10, 26, 10]"

definition compressionMethod_Deflate :: byte where "compressionMethod_Deflate = 0"
definition filterMethod_Adaptive :: byte where "filterMethod_Adaptive = 0"
definition interlaceMethod_None :: byte where "interlaceMethod_None = 0"

definition filterType_None :: byte where "filterType_None = 0"
definition filterType_Sub :: byte where "filterType_Sub = 1"
definition filterType_Up :: byte where "filterType_Up = 2"
definition filterType_Average :: byte where "filterType_Average = 3"
definition filterType_Paeth :: byte where "filterType_Paeth = 4"

definition IsHeightValid :: "uint32 \<Rightarrow> bool" where
  "IsHeightValid h = (unat h \<le> 2 ^ 31 - 1)"

definition IsWidthValid :: "uint32 \<Rightarrow> bool" where
  "IsWidthValid v = (unat v \<le> 2 ^ 31 - 1)"

definition IsColorTypeAndBitDepthCombinationValid :: "byte \<Rightarrow> byte \<Rightarrow> bool" where
  "IsColorTypeAndBitDepthCombinationValid ct bd =
    (if ct = 0 then bd = 1 \<or> bd = 2 \<or> bd = 4 \<or> bd = 8 \<or> bd = 16
     else if ct = 3 then bd = 1 \<or> bd = 2 \<or> bd = 4 \<or> bd = 8
     else if ct = 2 \<or> ct = 4 \<or> ct = 6 then bd = 8 \<or> bd = 16
     else False)"

datatype png_Result =
    png_OK
  | PrematureEndOfFile
  | BadSignature
  | InvalidFirstChunk
  | MultipleIHDR
  | InvalidWidth
  | InvalidHeight
  | InvalidColorTypeAndBitDepthCombination
  | png_UnsupportedCompressionMethod
  | UnsupportedFilterMethod
  | UnsupportedInterlaceMethod
  | UnsupportedCriticalChunkEncountered
  | ZlibError
  | UnsupportedFilterType

record ImageHeader =
  width :: uint32
  height :: uint32
  bitDepth :: byte
  colorType :: byte
  compressionMethod :: byte
  filterMethod :: byte
  interlaceMethod :: byte

definition samplesPerPixel :: "byte \<Rightarrow> nat" where
  "samplesPerPixel ct =
    (if ct = 0 then 1
     else if ct = 2 then 3
     else if ct = 3 then 1
     else if ct = 4 then 2
     else if ct = 6 then 4
     else 1)"

definition GetBytesPerPixel :: "ImageHeader \<Rightarrow> nat" where
  "GetBytesPerPixel h = samplesPerPixel (colorType h) * (unat (bitDepth h) div 8)"

definition GetScanLineLengthInBytes :: "ImageHeader \<Rightarrow> nat" where
  "GetScanLineLengthInBytes h = unat (width h) * GetBytesPerPixel h"

text \<open>
  \<open>ParseImageHeader\<close> reads the seven fields first and checks them afterwards. The
  header is an out-parameter: it is returned only where the source has written it.
\<close>

definition ParseImageHeader :: "ByteStreamer \<Rightarrow> png_Result \<times> ImageHeader option \<times> ByteStreamer" where
  "ParseImageHeader bs =
    (case Get32 bs of (w, s1) \<Rightarrow>
     case Get32 s1 of (h, s2) \<Rightarrow>
     case Get8 s2 of (bd, s3) \<Rightarrow>
     case Get8 s3 of (ct, s4) \<Rightarrow>
     case Get8 s4 of (cm, s5) \<Rightarrow>
     case Get8 s5 of (fm, s6) \<Rightarrow>
     case Get8 s6 of (im, s7) \<Rightarrow>
     if w = None \<or> h = None \<or> bd = None \<or> ct = None \<or> cm = None \<or> fm = None \<or> im = None
     then (PrematureEndOfFile, None, s7)
     else
       let ihdr = \<lparr>width = the w, height = the h, bitDepth = the bd, colorType = the ct,
                   compressionMethod = the cm, filterMethod = the fm, interlaceMethod = the im\<rparr>
       in if \<not> IsWidthValid (width ihdr) then (InvalidWidth, Some ihdr, s7)
          else if \<not> IsHeightValid (height ihdr) then (InvalidHeight, Some ihdr, s7)
          else if \<not> IsColorTypeAndBitDepthCombinationValid (colorType ihdr) (bitDepth ihdr)
            then (InvalidColorTypeAndBitDepthCombination, Some ihdr, s7)
          else if compressionMethod ihdr \<noteq> compressionMethod_Deflate
            then (png_UnsupportedCompressionMethod, Some ihdr, s7)
          else if filterMethod ihdr \<noteq> filterMethod_Adaptive
            then (UnsupportedFilterMethod, Some ihdr, s7)
          else if interlaceMethod ihdr \<noteq> interlaceMethod_None
            then (UnsupportedInterlaceMethod, Some ihdr, s7)
          else (png_OK, Some ihdr, Skip 4 s7))"

section \<open>mini-png.h: scanline reconstruction\<close>

definition PaethPredictor :: "byte \<Rightarrow> byte \<Rightarrow> byte \<Rightarrow> nat" where
  "PaethPredictor a b c =
    (let p = int (unat a) + int (unat b) - int (unat c);
         pa = \<bar>p - int (unat a)\<bar>;
         pb = \<bar>p - int (unat b)\<bar>;
         pc = \<bar>p - int (unat c)\<bar>
     in if pa \<le> pb \<and> pa \<le> pc then unat a
        else if pb \<le> pc then unat b
        else unat c)"

record DecodeContext =
  ihdr :: ImageHeader
  result :: png_Result
  pendingData :: "byte list"
  currentLine :: uint32
  bytesPerPixel :: nat
  scanLineLengthInBytes :: nat
  scanLine :: "byte list list"

definition DecodeContext_init :: "ImageHeader \<Rightarrow> DecodeContext" where
  "DecodeContext_init h =
    \<lparr>ihdr = h, result = png_OK, pendingData = [], currentLine = 0,
     bytesPerPixel = GetBytesPerPixel h,
     scanLineLengthInBytes = GetScanLineLengthInBytes h,
     scanLine = [replicate (GetScanLineLengthInBytes h) 0, replicate (GetScanLineLengthInBytes h) 0]\<rparr>"

text \<open>
  The lambdas \<open>raw\<close> and \<open>prior\<close> of \<open>ProcessScanLine\<close>. Their parameter is an
  \<open>int\<close>; the callers pass \<open>x - bytesPerPixel\<close>, computed in \<open>size_t\<close>.
\<close>

definition raw :: "byte list \<Rightarrow> int \<Rightarrow> nat" where
  "raw line x = (if x < 0 then 0 else unat (line ! nat x))"

definition prior :: "byte list \<Rightarrow> int \<Rightarrow> nat" where
  "prior line x = (if x < 0 then 0 else unat (line ! nat x))"

text \<open>
  One iteration of each filter loop: \<open>filt\<close> is the range behind the filter-type byte,
  \<open>cur\<close> the current scanline as written so far, \<open>prev\<close> the previous one.
\<close>

definition sub_step :: "nat \<Rightarrow> byte list \<Rightarrow> byte list \<Rightarrow> nat \<Rightarrow> byte list" where
  "sub_step bpp filt cur x =
    cur[x := word_of_nat ((unat (filt ! x) + raw cur (int_of_size_t (size_t_sub x bpp))) AND 0xff)]"

definition up_step :: "byte list \<Rightarrow> byte list \<Rightarrow> byte list \<Rightarrow> nat \<Rightarrow> byte list" where
  "up_step prev filt cur x =
    cur[x := word_of_nat ((unat (filt ! x) + prior prev (int_of_size_t x)) AND 0xff)]"

definition average_step :: "nat \<Rightarrow> byte list \<Rightarrow> byte list \<Rightarrow> byte list \<Rightarrow> nat \<Rightarrow> byte list" where
  "average_step bpp prev filt cur x =
    cur[x := word_of_nat ((unat (filt ! x)
        + (raw cur (int_of_size_t (size_t_sub x bpp)) + prior prev (int_of_size_t x)) div 2) AND 0xff)]"

definition paeth_step :: "nat \<Rightarrow> byte list \<Rightarrow> byte list \<Rightarrow> byte list \<Rightarrow> nat \<Rightarrow> byte list" where
  "paeth_step bpp prev filt cur x =
    cur[x := word_of_nat ((unat (filt ! x)
        + PaethPredictor (word_of_nat (raw cur (int_of_size_t (size_t_sub x bpp))))
                         (word_of_nat (prior prev (int_of_size_t x)))
                         (word_of_nat (prior prev (int_of_size_t (size_t_sub x bpp))))) AND 0xff)]"

text \<open>
  \<open>ProcessScanLine\<close>: \<open>d\<close> is the range the iterator can access (the filter-type byte
  first), \<open>fn\<close> the row callback acting on the caller's state \<open>rows\<close>.
\<close>

definition ProcessScanLine ::
  "byte list \<Rightarrow> (byte list \<Rightarrow> 'r \<Rightarrow> 'r) \<Rightarrow> DecodeContext \<times> 'r \<Rightarrow> DecodeContext \<times> 'r" where
  "ProcessScanLine d fn st =
    (case st of (ctx, rows) \<Rightarrow>
     let filterType = hd d;
         filt = tl d;
         ci = unat (currentLine ctx) mod 2;
         pi = unat (currentLine ctx - 1) mod 2;
         cur = scanLine ctx ! ci;
         prev = scanLine ctx ! pi;
         n = scanLineLengthInBytes ctx;
         bpp = bytesPerPixel ctx
     in if filterType = filterType_None then
          (let cur' = take n filt @ drop n cur
           in (ctx\<lparr>scanLine := (scanLine ctx)[ci := cur']\<rparr>, fn cur' rows))
        else if filterType = filterType_Sub then
          (let cur' = foldl (sub_step bpp filt) cur [0..<n]
           in (ctx\<lparr>scanLine := (scanLine ctx)[ci := cur']\<rparr>, fn cur' rows))
        else if filterType = filterType_Up then
          (let cur' = foldl (up_step prev filt) cur [0..<n]
           in (ctx\<lparr>scanLine := (scanLine ctx)[ci := cur']\<rparr>, fn cur' rows))
        else if filterType = filterType_Average then
          (let cur' = foldl (average_step bpp prev filt) cur [0..<n]
           in (ctx\<lparr>scanLine := (scanLine ctx)[ci := cur']\<rparr>, fn cur' rows))
        else if filterType = filterType_Paeth then
          (let cur' = foldl (paeth_step bpp prev filt) cur [0..<n]
           in (ctx\<lparr>scanLine := (scanLine ctx)[ci := cur']\<rparr>, fn cur' rows))
        else (ctx\<lparr>result := UnsupportedFilterType\<rparr>, rows))"

text \<open>The loop of \<open>ProcessImageData\<close> over the complete scanlines of the fragment.\<close>

function scanlines_loop ::
  "(byte list \<Rightarrow> 'r \<Rightarrow> 'r) \<Rightarrow> byte list \<Rightarrow> DecodeContext \<times> 'r \<Rightarrow> byte list \<times> DecodeContext \<times> 'r" where
  "scanlines_loop fn rest st =
    (if result (fst st) = png_OK \<and> length rest \<ge> scanLineLengthInBytes (fst st) + 1 then
       (case ProcessScanLine rest fn st of (ctx', rows') \<Rightarrow>
          scanlines_loop fn (drop (scanLineLengthInBytes (fst st) + 1) rest)
            (ctx'\<lparr>currentLine := currentLine ctx' + 1\<rparr>, rows'))
     else (rest, st))"
  by pat_completeness auto
termination
  by (relation "measure (\<lambda>(fn, rest, st). length rest)") auto

declare scanlines_loop.simps [simp del]

definition ProcessImageData ::
  "byte list \<Rightarrow> (byte list \<Rightarrow> 'r \<Rightarrow> 'r) \<Rightarrow> DecodeContext \<times> 'r \<Rightarrow> DecodeContext \<times> 'r" where
  "ProcessImageData d fn st =
    (case st of (ctx, rows) \<Rightarrow>
     if result ctx \<noteq> png_OK then (ctx, rows)
     else
       let (ctx1, rest1) =
             (if pendingData ctx \<noteq> [] then
                (let toCopy = min (size_t_sub (scanLineLengthInBytes ctx + 1) (length (pendingData ctx)))
                                  (length d)
                 in (ctx\<lparr>pendingData := pendingData ctx @ take toCopy d\<rparr>, drop toCopy d))
              else (ctx, d));
           st2 =
             (if length (pendingData ctx1) = scanLineLengthInBytes ctx1 + 1 then
                (case ProcessScanLine (pendingData ctx1) fn (ctx1, rows) of (c, r) \<Rightarrow>
                   (c\<lparr>pendingData := [], currentLine := currentLine c + 1\<rparr>, r))
              else (ctx1, rows))
       in case scanlines_loop fn rest1 st2 of (rest3, ctx3, rows3) \<Rightarrow>
            (ctx3\<lparr>pendingData := pendingData ctx3 @ rest3\<rparr>, rows3))"

section \<open>mini-png.h: chunks and the top-level parser\<close>

definition IsAncillary :: "uint32 \<Rightarrow> bool" where
  "IsAncillary t = (drop_bit 24 t AND 0x20 \<noteq> 0)"

definition FromIdentifier :: "byte \<Rightarrow> byte \<Rightarrow> byte \<Rightarrow> byte \<Rightarrow> uint32" where
  "FromIdentifier a b c d = push_bit 24 (ucast a) OR push_bit 16 (ucast b) OR push_bit 8 (ucast c) OR ucast d"

text \<open>The identifiers are the ASCII codes of \<open>IHDR\<close>, \<open>IDAT\<close> and \<open>IEND\<close>.\<close>

definition type_IHDR :: uint32 where "type_IHDR = FromIdentifier 73 72 68 82"
definition type_IDAT :: uint32 where "type_IDAT = FromIdentifier 73 68 65 84"
definition type_IEND :: uint32 where "type_IEND = FromIdentifier 73 69 78 68"

text \<open>\<open>Chunk::ReadHeader\<close>: the length and the type of the chunk, when both are there.\<close>

definition ReadHeader :: "ByteStreamer \<Rightarrow> (uint32 \<times> uint32) option \<times> ByteStreamer" where
  "ReadHeader bs =
    (case Get32 bs of (l, s1) \<Rightarrow>
     case Get32 s1 of (t, s2) \<Rightarrow>
       if l = None \<or> t = None then (None, s2) else (Some (the l, the t), s2))"

definition ParseImageData ::
  "uint32 \<Rightarrow> ByteStreamer \<Rightarrow> (byte list \<Rightarrow> 'r \<Rightarrow> 'r) \<Rightarrow> DecodeContext \<times> 'r
     \<Rightarrow> (png_Result \<times> ByteStreamer \<times> DecodeContext \<times> 'r) option" where
  "ParseImageData chunk_length bs scanLineFn st =
    (case zlib_Decompress bs (unat chunk_length)
            (\<lambda>output st'. ProcessImageData output scanLineFn st') st of
       None \<Rightarrow> None
     | Some (res, bs', dctx, rows) \<Rightarrow>
         if res \<noteq> zlib_OK then Some (ZlibError, bs', dctx, rows)
         else Some (result dctx, bs', dctx, rows))"

fun check_signature :: "byte list \<Rightarrow> ByteStreamer \<Rightarrow> png_Result \<times> ByteStreamer" where
  "check_signature [] bs = (png_OK, bs)"
| "check_signature (signature_byte # rest) bs =
     (case GetByte bs of
        (None, bs') \<Rightarrow> (PrematureEndOfFile, bs')
      | (Some b, bs') \<Rightarrow>
          if b \<noteq> signature_byte then (BadSignature, bs') else check_signature rest bs')"

text \<open>
  One iteration of the loop \<open>while (!bs.eof())\<close> of \<open>Parse\<close>: it returns a result,
  leaves the loop (\<open>IEND\<close>), or goes on with the next chunk.
\<close>

datatype 'r chunk_step = Return png_Result ByteStreamer "DecodeContext \<times> 'r"
  | Break ByteStreamer "DecodeContext \<times> 'r"
  | Continue ByteStreamer "DecodeContext \<times> 'r"

definition parse_chunk ::
  "(byte list \<Rightarrow> 'r \<Rightarrow> 'r) \<Rightarrow> ByteStreamer \<Rightarrow> DecodeContext \<times> 'r \<Rightarrow> 'r chunk_step option" where
  "parse_chunk scanLineFn bs st =
    (case ReadHeader bs of
       (None, bs1) \<Rightarrow> Some (Return PrematureEndOfFile bs1 st)
     | (Some (chunk_length, chunk_type), bs1) \<Rightarrow>
         if chunk_type = type_IHDR then Some (Return MultipleIHDR bs1 st)
         else if chunk_type = type_IDAT then
           (case ParseImageData chunk_length bs1 scanLineFn st of
              None \<Rightarrow> None
            | Some (res, bs2, st2) \<Rightarrow>
                if res \<noteq> png_OK then Some (Return res bs2 st2)
                else Some (Continue (Skip 4 bs2) st2))
         else if chunk_type = type_IEND then Some (Break (Skip 4 bs1) st)
         else if \<not> IsAncillary chunk_type then Some (Return UnsupportedCriticalChunkEncountered bs1 st)
         else Some (Continue (Skip (unat chunk_length + 4) bs1) st))"

partial_function (option) parse_chunks ::
  "(byte list \<Rightarrow> 'r \<Rightarrow> 'r) \<Rightarrow> ByteStreamer \<Rightarrow> DecodeContext \<times> 'r
     \<Rightarrow> (png_Result \<times> ByteStreamer \<times> DecodeContext \<times> 'r) option" where
  "parse_chunks scanLineFn bs st =
    (if eof bs then Some (png_OK, bs, st)
     else do { step \<leftarrow> parse_chunk scanLineFn bs st;
               case step of
                 Return res bs' st' \<Rightarrow> Some (res, bs', st')
               | Break bs' st' \<Rightarrow> Some (png_OK, bs', st')
               | Continue bs' st' \<Rightarrow> parse_chunks scanLineFn bs' st' })"

declare parse_chunks.simps [code]

text \<open>
  \<open>Parse\<close>: both callbacks act on the caller's state. The result carries the streamer
  and the caller's state as they are left.
\<close>

definition Parse ::
  "ByteStreamer \<Rightarrow> (ImageHeader \<Rightarrow> 'r \<Rightarrow> 'r) \<Rightarrow> (byte list \<Rightarrow> 'r \<Rightarrow> 'r) \<Rightarrow> 'r
     \<Rightarrow> (png_Result \<times> ByteStreamer \<times> 'r) option" where
  "Parse bs imageHeaderFn scanLineFn r =
    (case check_signature png_signature bs of (sig, bs1) \<Rightarrow>
     if sig \<noteq> png_OK then Some (sig, bs1, r)
     else case ReadHeader bs1 of
       (None, bs2) \<Rightarrow> Some (PrematureEndOfFile, bs2, r)
     | (Some (header_length, header_type), bs2) \<Rightarrow>
         if header_type \<noteq> type_IHDR then Some (InvalidFirstChunk, bs2, r)
         else case ParseImageHeader bs2 of (res, ihdr', bs3) \<Rightarrow>
           if res \<noteq> png_OK then Some (res, bs3, r)
           else case parse_chunks scanLineFn bs3
                       (DecodeContext_init (the ihdr'), imageHeaderFn (the ihdr') r) of
                  None \<Rightarrow> None
                | Some (res', bs4, dctx, r') \<Rightarrow> Some (res', bs4, r'))"

definition append_row :: "byte list \<Rightarrow> byte list list \<Rightarrow> byte list list" where
  "append_row row rows = rows @ [row]"

definition gray8_1px :: ImageHeader where
  "gray8_1px = \<lparr>width = 1, height = 4, bitDepth = 8, colorType = 0,
     compressionMethod = 0, filterMethod = 0, interlaceMethod = 0\<rparr>"






definition empty_lines :: "DecodeContext \<Rightarrow> bool" where
  "empty_lines ctx \<longleftrightarrow> scanLineLengthInBytes ctx = 0 \<and> scanLine ctx = [[], []]"

definition feed_fragments ::
  "byte list list \<Rightarrow> (byte list \<Rightarrow> 'r \<Rightarrow> 'r) \<Rightarrow> DecodeContext \<times> 'r \<Rightarrow> DecodeContext \<times> 'r" where
  "feed_fragments frags fn st = foldl (\<lambda>st d. ProcessImageData d fn st) st frags"

definition bilevel_ihdr_stream :: ByteStreamer where
  "bilevel_ihdr_stream = \<lparr>data = [0, 0, 0, 4, 0, 0, 0, 1, 1, 0, 0, 0, 0, 0xAA, 0xBB, 0xCC, 0xDD], pos = 0\<rparr>"

definition bilevel_header :: ImageHeader where
  "bilevel_header = \<lparr>width = 4, height = 1, bitDepth = 1, colorType = 0,
     compressionMethod = 0, filterMethod = 0, interlaceMethod = 0\<rparr>"

text \<open>Streams used as examples.\<close>

definition two_stored_blocks :: "byte list" where
  "two_stored_blocks = [0x00, 0x01, 0x00, 0xFE, 0xFF, 0x61, 0x01, 0x01, 0x00, 0xFE, 0xFF, 0x62]"

definition hello_zlib :: "byte list" where
  "hello_zlib = [0x78, 0x9c, 0xcb, 0x48, 0xcd, 0xc9, 0xc9, 0x57, 0x28, 0xcf, 0x2f, 0xca,
     0x49, 0x01, 0x00, 0x1a, 0x0b, 0x04, 0x5d]"

definition reserved_block_zlib :: "byte list" where
  "reserved_block_zlib = [0x78, 0x9c, 0x07, 0x00, 0x00, 0x00, 0x01]"

text \<open>
  The chunk loop of \<open>Parse\<close> runs out of input at a chunk boundary: every chunk on the
  way is processed and the loop goes on, so none of them is \<open>IEND\<close>, and the streamer is
  at its end afterwards.
\<close>

inductive exhausts ::
  "(byte list \<Rightarrow> 'r \<Rightarrow> 'r) \<Rightarrow> ByteStreamer \<Rightarrow> DecodeContext \<times> 'r
     \<Rightarrow> ByteStreamer \<Rightarrow> DecodeContext \<times> 'r \<Rightarrow> bool"
  for scanLineFn :: "byte list \<Rightarrow> 'r \<Rightarrow> 'r" where
  at_end: "eof bs \<Longrightarrow> exhausts scanLineFn bs st bs st"
| next_chunk: "\<not> eof bs \<Longrightarrow> parse_chunk scanLineFn bs st = Some (Continue bs1 st1)
     \<Longrightarrow> exhausts scanLineFn bs1 st1 bs' st' \<Longrightarrow> exhausts scanLineFn bs st bs' st'"

definition png_gray_1x1_text :: "byte list" where
  "png_gray_1x1_text = [137, 80, 78, 71, 13, 10, 26, 10,
     0, 0, 0, 13, 73, 72, 68, 82, 0, 0, 0, 1, 0, 0, 0, 1, 8, 0, 0, 0, 0, 0x3A, 0x7E, 0x9B, 0x55,
     0, 0, 0, 2, 116, 69, 88, 116, 104, 105, 1, 2, 3, 4]"

definition png_gray_1x1_truncated :: "byte list" where
  "png_gray_1x1_truncated = [137, 80, 78, 71, 13, 10, 26, 10,
     0, 0, 0, 13, 73, 72, 68, 82, 0, 0, 0, 1, 0, 0, 0, 1, 8, 0, 0, 0, 0, 0x3A, 0x7E, 0x9B, 0x55,
     0, 0, 3, 232, 116, 69, 88, 116, 104, 105]"

definition gray8_1x1 :: ImageHeader where
  "gray8_1x1 = \<lparr>width = 1, height = 1, bitDepth = 8, colorType = 0,
     compressionMethod = 0, filterMethod = 0, interlaceMethod = 0\<rparr>"

definition note_header :: "ImageHeader \<Rightarrow> byte list list \<Rightarrow> byte list list" where
  "note_header h rows = rows"















lemmas filterType_defs = filterType_None_def filterType_Sub_def filterType_Up_def
  filterType_Average_def filterType_Paeth_def

lemma ProcessScanLine_frame:
  "scanLineLengthInBytes (fst (ProcessScanLine d fn st)) = scanLineLengthInBytes (fst st)"
  "bytesPerPixel (fst (ProcessScanLine d fn st)) = bytesPerPixel (fst st)"
  "pendingData (fst (ProcessScanLine d fn st)) = pendingData (fst st)"
  "currentLine (fst (ProcessScanLine d fn st)) = currentLine (fst st)"
  "ihdr (fst (ProcessScanLine d fn st)) = ihdr (fst st)"
  by (cases st; simp add: ProcessScanLine_def Let_def)+

lemma scanlines_loop_frame:
  "scanLineLengthInBytes (fst (snd (scanlines_loop fn rest st))) = scanLineLengthInBytes (fst st)
   \<and> bytesPerPixel (fst (snd (scanlines_loop fn rest st))) = bytesPerPixel (fst st)
   \<and> pendingData (fst (snd (scanlines_loop fn rest st))) = pendingData (fst st)
   \<and> ihdr (fst (snd (scanlines_loop fn rest st))) = ihdr (fst st)"
proof (induction fn rest st rule: scanlines_loop.induct)
  case (1 fn rest st)
  show ?case
  proof (cases "result (fst st) = png_OK \<and> length rest \<ge> scanLineLengthInBytes (fst st) + 1")
    case True
    obtain ctx' rows' where p: "ProcessScanLine rest fn st = (ctx', rows')"
      by (cases "ProcessScanLine rest fn st")
    have fr: "scanLineLengthInBytes ctx' = scanLineLengthInBytes (fst st)"
      "bytesPerPixel ctx' = bytesPerPixel (fst st)"
      "pendingData ctx' = pendingData (fst st)" "ihdr ctx' = ihdr (fst st)"
      using ProcessScanLine_frame [of rest fn st] p by simp_all
    from True 1 [OF True p [symmetric]] p fr show ?thesis
      by (subst (1 2 3 4) scanlines_loop.simps) simp
  next
    case False
    then show ?thesis by (subst (1 2 3 4) scanlines_loop.simps) auto
  qed
qed

lemma scanlines_loop_rest:
  "result (fst (snd (scanlines_loop fn rest st))) = png_OK
     \<Longrightarrow> length (fst (scanlines_loop fn rest st)) \<le> scanLineLengthInBytes (fst st)"
proof (induction fn rest st rule: scanlines_loop.induct)
  case (1 fn rest st)
  show ?case
  proof (cases "result (fst st) = png_OK \<and> length rest \<ge> scanLineLengthInBytes (fst st) + 1")
    case True
    obtain ctx' rows' where p: "ProcessScanLine rest fn st = (ctx', rows')"
      by (cases "ProcessScanLine rest fn st")
    have fr: "scanLineLengthInBytes ctx' = scanLineLengthInBytes (fst st)"
      using ProcessScanLine_frame(1) [of rest fn st] p by simp
    have eq: "scanlines_loop fn rest st =
       scanlines_loop fn (drop (scanLineLengthInBytes (fst st) + 1) rest)
            (ctx'\<lparr>currentLine := currentLine ctx' + 1\<rparr>, rows')"
      using True p by (subst scanlines_loop.simps) simp
    from 1(1) [OF True p [symmetric]] 1(2) fr show ?thesis
      unfolding eq by simp
  next
    case False
    with 1(2) show ?thesis by (subst scanlines_loop.simps) (auto simp: scanlines_loop.simps)
  qed
qed

lemma GetScanLineLengthInBytes_bound: "GetScanLineLengthInBytes h < 2 ^ 40"
proof -
  have s: "samplesPerPixel (colorType h) \<le> 4"
    by (simp add: samplesPerPixel_def)
  have "unat (bitDepth h) < 2 ^ 8"
    using unsigned_less [of "bitDepth h"] by simp
  then have d: "unat (bitDepth h) div 8 \<le> 31" by simp
  have w: "unat (width h) < 2 ^ 32"
    using unsigned_less [of "width h"] by simp
  have "GetBytesPerPixel h \<le> 4 * 31"
    unfolding GetBytesPerPixel_def using s d by (rule mult_le_mono)
  then have "GetScanLineLengthInBytes h \<le> 2 ^ 32 * (4 * 31)"
    unfolding GetScanLineLengthInBytes_def using w by (intro mult_le_mono) simp_all
  then show ?thesis by simp
qed

lemma size_t_sub_le:
  assumes "b \<le> a" and "a < 2 ^ 64"
  shows "size_t_sub a b = a - b"
proof -
  have b: "b mod 2 ^ 64 = b" using assms by simp
  have "a + 2 ^ 64 - b = (a - b) + 2 ^ 64" using assms by simp
  then have "(a + 2 ^ 64 - b) mod 2 ^ 64 = (a - b) mod 2 ^ 64"
    by (simp only: mod_add_self2)
  also have "\<dots> = a - b" using assms by simp
  finally show ?thesis unfolding size_t_sub_def b .
qed

lemma ProcessImageData_pending_bound:
  assumes sl: "scanLineLengthInBytes ctx = GetScanLineLengthInBytes (ihdr ctx)"
    and pb: "length (pendingData ctx) \<le> scanLineLengthInBytes ctx"
    and run: "ProcessImageData d fn (ctx, rows) = (ctx', rows')"
    and ok: "result ctx' = png_OK"
  shows "length (pendingData ctx') \<le> scanLineLengthInBytes ctx'"
proof (cases "result ctx = png_OK")
  case False
  with run pb show ?thesis by (auto simp: ProcessImageData_def)
next
  case True
  define n where "n = scanLineLengthInBytes ctx"
  define toCopy where "toCopy = min (size_t_sub (n + 1) (length (pendingData ctx))) (length d)"
  define ctx1 where "ctx1 = (if pendingData ctx \<noteq> [] then ctx\<lparr>pendingData := pendingData ctx @ take toCopy d\<rparr> else ctx)"
  define rest1 where "rest1 = (if pendingData ctx \<noteq> [] then drop toCopy d else d)"
  define st2 where "st2 = (if length (pendingData ctx1) = n + 1 then
                (case ProcessScanLine (pendingData ctx1) fn (ctx1, rows) of (c, r) \<Rightarrow>
                   (c\<lparr>pendingData := [], currentLine := currentLine c + 1\<rparr>, r))
              else (ctx1, rows))"
  have n1: "scanLineLengthInBytes ctx1 = n"
    by (simp add: ctx1_def n_def)
  have n2: "scanLineLengthInBytes (fst st2) = n"
    using ProcessScanLine_frame(1) [of "pendingData ctx1" fn "(ctx1, rows)"] n1
    by (auto simp: st2_def split: prod.splits)
  have nb: "n + 1 < 2 ^ 64"
    using GetScanLineLengthInBytes_bound [of "ihdr ctx"] sl by (simp add: n_def)
  have tc: "toCopy = min (n + 1 - length (pendingData ctx)) (length d)"
    using pb nb by (simp add: toCopy_def size_t_sub_le n_def)
  have p2: "pendingData (fst st2) = [] \<or> (rest1 = [] \<and> length (pendingData (fst st2)) \<le> n)"
  proof (cases "length (pendingData ctx1) = n + 1")
    case True
    then show ?thesis by (simp add: st2_def split: prod.splits)
  next
    case False
    then have s: "st2 = (ctx1, rows)" by (simp add: st2_def)
    show ?thesis
    proof (cases "pendingData ctx = []")
      case True
      then show ?thesis by (simp add: s ctx1_def)
    next
      case ne: False
      from False ne have "length (pendingData ctx) + min toCopy (length d) \<noteq> n + 1"
        by (simp add: ctx1_def)
      with tc pb have "toCopy = length d \<and> length (pendingData ctx) + length d \<le> n"
        unfolding n_def by (auto simp: min_def split: if_splits)
      then show ?thesis using ne by (simp add: s ctx1_def rest1_def)
    qed
  qed
  obtain rest3 ctx3 rows3 where l: "scanlines_loop fn rest1 st2 = (rest3, ctx3, rows3)"
    by (cases "scanlines_loop fn rest1 st2") auto
  have c': "ctx' = ctx3\<lparr>pendingData := pendingData ctx3 @ rest3\<rparr>"
    using run True l
    by (simp add: ProcessImageData_def Let_def ctx1_def rest1_def st2_def toCopy_def n_def
        split: if_splits prod.splits)
  have ok3: "result ctx3 = png_OK" using ok c' by simp
  have fr: "scanLineLengthInBytes ctx3 = n" "pendingData ctx3 = pendingData (fst st2)"
    using scanlines_loop_frame [of fn rest1 st2] l n2 by simp_all
  have r3: "length rest3 \<le> n"
    using scanlines_loop_rest [of fn rest1 st2] l ok3 n2 by simp
  from p2 show ?thesis
  proof
    assume "pendingData (fst st2) = []"
    then show ?thesis using c' fr r3 by simp
  next
    assume a: "rest1 = [] \<and> length (pendingData (fst st2)) \<le> n"
    then have "rest3 = []"
      using l by (subst (asm) scanlines_loop.simps) simp
    then show ?thesis using c' fr a by simp
  qed
qed

lemma gray8_1px_init:
  "DecodeContext_init gray8_1px = \<lparr>ihdr = gray8_1px, result = png_OK, pendingData = [],
     currentLine = 0, bytesPerPixel = 1, scanLineLengthInBytes = 1, scanLine = [[0], [0]]\<rparr>"
  by (simp add: DecodeContext_init_def gray8_1px_def GetScanLineLengthInBytes_def
      GetBytesPerPixel_def samplesPerPixel_def)

text \<open>
  Claim C6 asks that the pending buffer never exceeds \<open>scanLineLengthInBytes + 1\<close>
  bytes, also when a fragment triggers \<open>UnsupportedFilterType\<close>. For a gray image one
  pixel wide a scanline is 2 bytes. The fragment \<open>5, 0, 0, 0, 0, 0, 0\<close> starts with the
  filter type 5: \<open>ProcessScanLine\<close> sets the error, the loop over the complete
  scanlines stops, and the remaining 5 bytes are all appended to the pending buffer.
\<close>

theorem ProcessImageData_pending_exceeds_scanline:
  "(case ProcessImageData [5, 0, 0, 0, 0, 0, 0] append_row (DecodeContext_init gray8_1px, []) of
     (ctx, rows) \<Rightarrow> result ctx = UnsupportedFilterType \<and> rows = []
        \<and> scanLineLengthInBytes ctx + 1 = 2 \<and> length (pendingData ctx) = 5)"
  by (simp add: gray8_1px_init ProcessImageData_def scanlines_loop.simps ProcessScanLine_def
      filterType_defs)


















lemma byte_of_unat: "unat (w::byte) = k \<Longrightarrow> w = word_of_nat k"
  by (drule sym) simp

lemma byte_le4:
  assumes "unat (w::byte) \<le> 4"
  shows "w = 0 \<or> w = 1 \<or> w = 2 \<or> w = 3 \<or> w = 4"
proof -
  consider "unat w = 0" | "unat w = 1" | "unat w = 2" | "unat w = 3" | "unat w = 4"
    using assms by arith
  then show ?thesis
  proof cases
    case 1 from byte_of_unat [OF 1] show ?thesis by simp
  next
    case 2 from byte_of_unat [OF 2] show ?thesis by simp
  next
    case 3 from byte_of_unat [OF 3] show ?thesis by simp
  next
    case 4 from byte_of_unat [OF 4] show ?thesis by simp
  next
    case 5 from byte_of_unat [OF 5] show ?thesis by simp
  qed
qed












lemma Get8_Some: "Get8 s = (Some b, s') \<Longrightarrow> \<not> eof s \<and> b = data s ! pos s \<and> s' = s\<lparr>pos := pos s + 1\<rparr>"
  by (auto simp: Get8_def GetByte_def split: if_splits)

lemma ParseImageHeader_OK:
  assumes "ParseImageHeader bs = (png_OK, Some h, bs')"
  shows "IsWidthValid (width h) \<and> IsHeightValid (height h)
     \<and> IsColorTypeAndBitDepthCombinationValid (colorType h) (bitDepth h)
     \<and> compressionMethod h = compressionMethod_Deflate
     \<and> filterMethod h = filterMethod_Adaptive
     \<and> interlaceMethod h = interlaceMethod_None"
  using assms
  by (simp add: ParseImageHeader_def Let_def split: prod.splits if_splits) auto

lemma low_depth_cases:
  assumes "IsColorTypeAndBitDepthCombinationValid ct bd" "unat bd < 8"
  shows "(bd = 1 \<or> bd = 2 \<or> bd = 4) \<and> (ct = 0 \<or> ct = 3)"
  using assms by (auto simp: IsColorTypeAndBitDepthCombinationValid_def split: if_splits)

lemma byte_le4_iff: "unat (w::byte) \<le> 4 \<longleftrightarrow> w = 0 \<or> w = 1 \<or> w = 2 \<or> w = 3 \<or> w = 4"
  using byte_le4 [of w] by auto

lemma ProcessScanLine_empty:
  assumes "empty_lines ctx"
  shows "ProcessScanLine d fn (ctx, rows)
     = (if unat (hd d) \<le> 4 then (ctx, fn [] rows)
        else (ctx\<lparr>result := UnsupportedFilterType\<rparr>, rows))"
proof -
  define ci where "ci = unat (currentLine ctx) mod 2"
  have "ci = 0 \<or> ci = 1" unfolding ci_def by arith
  then have u: "(scanLine ctx)[ci := []] = scanLine ctx" "scanLine ctx ! ci = []"
    using assms by (auto simp: empty_lines_def)
  have n: "scanLineLengthInBytes ctx = 0" using assms by (simp add: empty_lines_def)
  show ?thesis
    by (simp add: ProcessScanLine_def Let_def n u [unfolded ci_def] byte_le4_iff filterType_defs)
qed

lemma scanlines_loop_empty:
  assumes "empty_lines ctx"
  shows "scanlines_loop append_row rest (ctx, rows) = (rest', ctx', rows') \<Longrightarrow>
     empty_lines ctx' \<and> pendingData ctx' = pendingData ctx
     \<and> (\<exists>k. rows' = rows @ replicate k [])
     \<and> (result ctx' = png_OK \<longrightarrow> rest' = [])
     \<and> (result ctx = png_OK \<longrightarrow> (\<forall>b \<in> set rest. unat b \<le> 4)
          \<longrightarrow> result ctx' = png_OK \<and> rows' = rows @ replicate (length rest) [])"
  using assms
proof (induction rest arbitrary: ctx rows)
  case Nil
  then show ?case by (subst (asm) scanlines_loop.simps) (auto simp: empty_lines_def)
next
  case (Cons b rest)
  have n: "scanLineLengthInBytes ctx = 0" using Cons.prems by (simp add: empty_lines_def)
  show ?case
  proof (cases "result ctx = png_OK")
    case False
    with Cons.prems show ?thesis
      by (subst (asm) scanlines_loop.simps) (auto simp: n)
  next
    case ok: True
    show ?thesis
    proof (cases "unat b \<le> 4")
      case True
      define ctx1 where "ctx1 = ctx\<lparr>currentLine := currentLine ctx + 1\<rparr>"
      have e1: "empty_lines ctx1" using Cons.prems(2) by (simp add: empty_lines_def ctx1_def)
      have "scanlines_loop append_row (b # rest) (ctx, rows)
          = scanlines_loop append_row rest (ctx1, rows @ [[]])"
        using ok True
        by (subst scanlines_loop.simps)
           (simp add: n ProcessScanLine_empty [OF Cons.prems(2)] append_row_def ctx1_def)
      with Cons.prems(1) have "scanlines_loop append_row rest (ctx1, rows @ [[]]) = (rest', ctx', rows')"
        by simp
      from Cons.IH [OF this e1] show ?thesis
        using True ok
        by (auto simp: ctx1_def replicate_app_Cons_same intro: exI [of _ "Suc k" for k])
    next
      case False
      define ctx1 where "ctx1 = ctx\<lparr>result := UnsupportedFilterType, currentLine := currentLine ctx + 1\<rparr>"
      have "scanlines_loop append_row (b # rest) (ctx, rows)
          = scanlines_loop append_row rest (ctx1, rows)"
        using ok False
        by (subst scanlines_loop.simps)
           (simp add: n ProcessScanLine_empty [OF Cons.prems(2)] ctx1_def)
      also have "\<dots> = (rest, ctx1, rows)"
        by (subst scanlines_loop.simps) (simp add: ctx1_def)
      finally show ?thesis using Cons.prems False
        by (auto simp: ctx1_def empty_lines_def intro: exI [of _ 0])
    qed
  qed
qed

lemma ProcessImageData_empty:
  assumes e: "empty_lines ctx"
    and p: "result ctx = png_OK \<longrightarrow> pendingData ctx = []"
    and run: "ProcessImageData d append_row (ctx, rows) = (ctx', rows')"
  shows "empty_lines ctx' \<and> (result ctx' = png_OK \<longrightarrow> pendingData ctx' = [])
     \<and> (\<exists>k. rows' = rows @ replicate k [])
     \<and> (result ctx = png_OK \<longrightarrow> (\<forall>b \<in> set d. unat b \<le> 4)
          \<longrightarrow> result ctx' = png_OK \<and> rows' = rows @ replicate (length d) [])"
proof (cases "result ctx = png_OK")
  case False
  with run e p show ?thesis
    by (auto simp: ProcessImageData_def intro: exI [of _ 0])
next
  case True
  then have pe: "pendingData ctx = []" using p by simp
  have n: "scanLineLengthInBytes ctx = 0" using e by (simp add: empty_lines_def)
  obtain rest3 ctx3 rows3 where l: "scanlines_loop append_row d (ctx, rows) = (rest3, ctx3, rows3)"
    by (cases "scanlines_loop append_row d (ctx, rows)") auto
  have c': "ctx' = ctx3\<lparr>pendingData := pendingData ctx3 @ rest3\<rparr>" and r': "rows' = rows3"
    using run True l by (simp_all add: ProcessImageData_def pe n)
  from scanlines_loop_empty [OF e l] show ?thesis
    using c' r' pe True by (auto simp: empty_lines_def)
qed

lemma feed_fragments_empty:
  assumes "empty_lines ctx" "result ctx = png_OK \<longrightarrow> pendingData ctx = []"
    and "feed_fragments frags append_row (ctx, rows) = (ctx', rows')"
  shows "(\<exists>k. rows' = rows @ replicate k [])
     \<and> (result ctx = png_OK \<longrightarrow> (\<forall>d \<in> set frags. \<forall>b \<in> set d. unat b \<le> 4)
          \<longrightarrow> rows' = rows @ replicate (length (concat frags)) [])"
  using assms
proof (induction frags arbitrary: ctx rows)
  case Nil
  then show ?case by (auto simp: feed_fragments_def intro: exI [of _ 0])
next
  case (Cons d frags)
  obtain ctx1 rows1 where s: "ProcessImageData d append_row (ctx, rows) = (ctx1, rows1)"
    by (cases "ProcessImageData d append_row (ctx, rows)") auto
  from ProcessImageData_empty [OF Cons.prems(1,2) s]
  have e1: "empty_lines ctx1" and p1: "result ctx1 = png_OK \<longrightarrow> pendingData ctx1 = []"
    and k1: "\<exists>k. rows1 = rows @ replicate k []"
    and a1: "result ctx = png_OK \<longrightarrow> (\<forall>b \<in> set d. unat b \<le> 4)
          \<longrightarrow> result ctx1 = png_OK \<and> rows1 = rows @ replicate (length d) []"
    by blast+
  have f: "feed_fragments frags append_row (ctx1, rows1) = (ctx', rows')"
    using Cons.prems(3) s by (simp add: feed_fragments_def)
  from Cons.IH [OF e1 p1 f]
  have k2: "\<exists>k. rows' = rows1 @ replicate k []"
    and a2: "result ctx1 = png_OK \<longrightarrow> (\<forall>d \<in> set frags. \<forall>b \<in> set d. unat b \<le> 4)
          \<longrightarrow> rows' = rows1 @ replicate (length (concat frags)) []"
    by blast+
  from k1 k2 obtain j k where "rows' = rows @ replicate (j + k) []"
    by (auto simp: replicate_add)
  then have "\<exists>k. rows' = rows @ replicate k []" by blast
  moreover have "rows' = rows @ replicate (length (concat (d # frags))) []"
    if "result ctx = png_OK" "\<forall>d \<in> set (d # frags). \<forall>b \<in> set d. unat b \<le> 4"
    using that a1 a2 by (simp add: replicate_add)
  ultimately show ?case by blast
qed

text \<open>
  Claim C10. An image header that \<open>ParseImageHeader\<close> accepts with a bit depth below 8
  has bit depth 1, 2 or 4 and color type 0 or 3; \<open>GetBytesPerPixel\<close> and
  \<open>GetScanLineLengthInBytes\<close> are both 0 for it, since \<open>bitDepth / 8\<close> is 0. A
  scanline on the wire is then \<open>0 + 1\<close> bytes, the filter-type byte alone: every row
  that reaches the callback is empty, whatever the fragments are, and fragments
  that hold only valid filter types yield one empty row per byte.
\<close>

theorem low_bit_depth_rows_are_empty:
  assumes "ParseImageHeader bs = (png_OK, Some h, bs')" and "unat (bitDepth h) < 8"
  shows "(bitDepth h = 1 \<or> bitDepth h = 2 \<or> bitDepth h = 4) \<and> (colorType h = 0 \<or> colorType h = 3)
     \<and> GetBytesPerPixel h = 0 \<and> GetScanLineLengthInBytes h = 0
     \<and> scanLineLengthInBytes (DecodeContext_init h) + 1 = 1
     \<and> (\<forall>frags. \<forall>row \<in> set (snd (feed_fragments frags append_row (DecodeContext_init h, []))).
           row = [])
     \<and> (\<forall>frags. (\<forall>d \<in> set frags. \<forall>b \<in> set d. unat b \<le> 4) \<longrightarrow>
           snd (feed_fragments frags append_row (DecodeContext_init h, []))
             = replicate (length (concat frags)) [])"
proof -
  from ParseImageHeader_OK [OF assms(1)]
  have v: "IsColorTypeAndBitDepthCombinationValid (colorType h) (bitDepth h)" by simp
  from low_depth_cases [OF v assms(2)]
  have c: "(bitDepth h = 1 \<or> bitDepth h = 2 \<or> bitDepth h = 4) \<and> (colorType h = 0 \<or> colorType h = 3)" .
  have "unat (bitDepth h) div 8 = 0" using assms(2) by simp
  then have b: "GetBytesPerPixel h = 0" by (simp add: GetBytesPerPixel_def)
  then have n: "GetScanLineLengthInBytes h = 0" by (simp add: GetScanLineLengthInBytes_def)
  have e: "empty_lines (DecodeContext_init h)"
    by (simp add: empty_lines_def DecodeContext_init_def n)
  have p: "result (DecodeContext_init h) = png_OK \<longrightarrow> pendingData (DecodeContext_init h) = []"
    by (simp add: DecodeContext_init_def)
  have ok: "result (DecodeContext_init h) = png_OK" by (simp add: DecodeContext_init_def)
  have 1: "\<forall>row \<in> set (snd (feed_fragments frags append_row (DecodeContext_init h, []))). row = []" for frags
    using feed_fragments_empty [OF e p, of frags "[]"
        "fst (feed_fragments frags append_row (DecodeContext_init h, []))"
        "snd (feed_fragments frags append_row (DecodeContext_init h, []))"]
    by auto
  have 2: "snd (feed_fragments frags append_row (DecodeContext_init h, []))
             = replicate (length (concat frags)) []"
    if "\<forall>d \<in> set frags. \<forall>b \<in> set d. unat b \<le> 4" for frags
    using feed_fragments_empty [OF e p, of frags "[]"
        "fst (feed_fragments frags append_row (DecodeContext_init h, []))"
        "snd (feed_fragments frags append_row (DecodeContext_init h, []))"] that ok
    by simp
  have s: "scanLineLengthInBytes (DecodeContext_init h) + 1 = 1"
    by (simp add: DecodeContext_init_def n)
  from c b n s 1 2 show ?thesis by blast
qed

lemma Get32_unfold: "Get32 s = Get32_loop (Suc (Suc (Suc (Suc 0)))) 0 s"
  by (simp add: Get32_def eval_nat_numeral)

lemma bilevel_parse:
  "ParseImageHeader bilevel_ihdr_stream = (png_OK, Some bilevel_header, bilevel_ihdr_stream\<lparr>pos := 17\<rparr>)"
  by (simp add: ParseImageHeader_def bilevel_ihdr_stream_def bilevel_header_def Get32_unfold Get8_def
      GetByte_def eof_def Skip_def IsWidthValid_def IsHeightValid_def
      IsColorTypeAndBitDepthCombinationValid_def compressionMethod_Deflate_def
      filterMethod_Adaptive_def interlaceMethod_None_def)

theorem low_bit_depth_rows_are_empty_witness:
  "ParseImageHeader bilevel_ihdr_stream
      = (png_OK, Some bilevel_header, bilevel_ihdr_stream\<lparr>pos := 17\<rparr>)
   \<and> unat (bitDepth bilevel_header) < 8
   \<and> GetBytesPerPixel bilevel_header = 0 \<and> GetScanLineLengthInBytes bilevel_header = 0
   \<and> snd (feed_fragments [[0, 1], [2]] append_row (DecodeContext_init bilevel_header, []))
        = [[], [], []]"
proof -
  have h2: "unat (bitDepth bilevel_header) < 8" by (simp add: bilevel_header_def)
  have a: "\<forall>d \<in> set [[0, 1], [2 :: byte]]. \<forall>b \<in> set d. unat b \<le> 4" by simp
  from low_bit_depth_rows_are_empty [OF bilevel_parse h2] a
  have "snd (feed_fragments [[0, 1], [2]] append_row (DecodeContext_init bilevel_header, []))
        = replicate (length (concat [[0, 1], [2 :: byte]])) []"
    by blast
  moreover have "replicate (length (concat [[0, 1], [2 :: byte]])) ([] :: byte list) = [[], [], []]"
    by (simp add: eval_nat_numeral)
  ultimately show ?thesis
    using low_bit_depth_rows_are_empty [OF bilevel_parse h2] bilevel_parse h2 by simp
qed

section \<open>The DEFLATE and ZLIB decoders\<close>


text \<open>
  Claim C8. When the stream is read up to the trailer and the DEFLATE decoder returns
  any result other than \<open>OK\<close>, \<open>mini_zlib::Decompress\<close> returns \<open>ChecksumError\<close>; the
  comparison with the trailer is not reached. No run returns \<open>DeflateError\<close>.
\<close>

theorem zlib_Decompress_deflate_failure:
  assumes "read_stream s len = Inr (compressedData, checksum, s')"
    and "deflate_Decompress (adler_callback callback) (BitStreamer_init compressedData)
           (initial_Adler32, st) = Some (res, bis, adler, st')"
    and "res \<noteq> deflate_OK"
  shows "zlib_Decompress s len callback st = Some (ChecksumError, s', st')
     \<and> (\<forall>s0 len0 st0 x. zlib_Decompress s0 len0 callback st0 = Some x \<longrightarrow> fst x \<noteq> DeflateError)"
proof -
  have 1: "zlib_Decompress s len callback st = Some (ChecksumError, s', st')"
    using assms by (simp add: zlib_Decompress_def)
  have r: "fst x \<noteq> DeflateError" if "read_stream s0 len0 = Inl x" for s0 len0 x
    using that
    by (auto simp: read_stream_def Let_def split: prod.splits if_splits option.splits)
  have 2: "fst x \<noteq> DeflateError" if "zlib_Decompress s0 len0 callback st0 = Some x" for s0 len0 st0 x
    using that r [of s0 len0]
    by (auto simp: zlib_Decompress_def split: sum.splits prod.splits option.splits if_splits)
  from 1 2 show ?thesis by blast
qed















section \<open>The chunk loop\<close>

lemma exhausts_parse_chunks:
  "exhausts scanLineFn bs st bs' st' \<Longrightarrow> parse_chunks scanLineFn bs st = Some (png_OK, bs', st')"
proof (induction rule: exhausts.induct)
  case (at_end bs st)
  then show ?case by (subst parse_chunks.simps) simp
next
  case (next_chunk bs st bs1 st1 bs' st')
  then show ?case by (subst parse_chunks.simps) simp
qed

lemma ReadHeader_not_eof: "ReadHeader bs = (Some x, bs1) \<Longrightarrow> \<not> eof bs"
  by (auto simp: ReadHeader_def Get32_unfold GetByte_def split: prod.splits if_splits)

lemma IsAncillary_known:
  "\<not> IsAncillary type_IHDR" "\<not> IsAncillary type_IDAT" "\<not> IsAncillary type_IEND"
  by (simp_all add: IsAncillary_def type_IHDR_def type_IDAT_def type_IEND_def FromIdentifier_def)

text \<open>
  Claim C9. When the signature and the \<open>IHDR\<close> chunk are valid and the chunk loop
  runs out of input at a chunk boundary without having met \<open>IEND\<close>, \<open>Parse\<close> returns
  \<open>OK\<close>. Skipping an ancillary chunk whose declared length reaches past the end of the
  input puts the streamer at or behind the end, and the loop ends with \<open>OK\<close> as well.
\<close>

theorem Parse_without_IEND_is_OK:
  assumes "check_signature png_signature bs = (png_OK, bs1)"
    and "ReadHeader bs1 = (Some (header_length, type_IHDR), bs2)"
    and "ParseImageHeader bs2 = (png_OK, Some h, bs3)"
    and "exhausts scanLineFn bs3 (DecodeContext_init h, imageHeaderFn h r) bs4 (dctx, r')"
  shows "Parse bs imageHeaderFn scanLineFn r = Some (png_OK, bs4, r')
     \<and> (\<forall>b chunk_length chunk_type b1 st.
           ReadHeader b = (Some (chunk_length, chunk_type), b1) \<and> IsAncillary chunk_type
           \<and> length (data b1) \<le> pos b1 + unat chunk_length + 4
           \<longrightarrow> parse_chunks scanLineFn b st = Some (png_OK, Skip (unat chunk_length + 4) b1, st))"
proof -
  have 1: "Parse bs imageHeaderFn scanLineFn r = Some (png_OK, bs4, r')"
    using assms(1-3) exhausts_parse_chunks [OF assms(4)] by (simp add: Parse_def)
  have 2: "parse_chunks scanLineFn b st = Some (png_OK, Skip (unat chunk_length + 4) b1, st)"
    if rh: "ReadHeader b = (Some (chunk_length, chunk_type), b1)" and anc: "IsAncillary chunk_type"
      and over: "length (data b1) \<le> pos b1 + unat chunk_length + 4"
    for b chunk_length chunk_type b1 st
  proof -
    have ne: "\<not> eof b" using rh by (rule ReadHeader_not_eof)
    have t: "chunk_type \<noteq> type_IHDR" "chunk_type \<noteq> type_IDAT" "chunk_type \<noteq> type_IEND"
      using anc IsAncillary_known by auto
    have pc: "parse_chunk scanLineFn b st = Some (Continue (Skip (unat chunk_length + 4) b1) st)"
      using rh t anc by (simp add: parse_chunk_def)
    have e: "eof (Skip (unat chunk_length + 4) b1)"
      using over by (simp add: eof_def Skip_def)
    from exhausts_parse_chunks [OF next_chunk [OF ne pc at_end [OF e]]] show ?thesis .
  qed
  from 1 2 show ?thesis by blast
qed

lemma text_png_signature:
  "check_signature png_signature \<lparr>data = png_gray_1x1_text, pos = 0\<rparr>
     = (png_OK, \<lparr>data = png_gray_1x1_text, pos = 8\<rparr>)"
  by code_simp

lemma text_png_header:
  "ReadHeader \<lparr>data = png_gray_1x1_text, pos = 8\<rparr>
     = (Some (13, type_IHDR), \<lparr>data = png_gray_1x1_text, pos = 16\<rparr>)"
  by code_simp

lemma text_png_ihdr:
  "ParseImageHeader \<lparr>data = png_gray_1x1_text, pos = 16\<rparr>
     = (png_OK, Some gray8_1x1, \<lparr>data = png_gray_1x1_text, pos = 33\<rparr>)"
  by (simp add: ParseImageHeader_def png_gray_1x1_text_def gray8_1x1_def Get32_unfold
      Get8_def GetByte_def eof_def Skip_def IsWidthValid_def IsHeightValid_def
      IsColorTypeAndBitDepthCombinationValid_def compressionMethod_Deflate_def
      filterMethod_Adaptive_def interlaceMethod_None_def)

lemma text_png_chunk:
  "parse_chunk append_row \<lparr>data = png_gray_1x1_text, pos = 33\<rparr> st
     = Some (Continue \<lparr>data = png_gray_1x1_text, pos = 47\<rparr> st)"
  by (simp add: parse_chunk_def ReadHeader_def Get32_unfold GetByte_def eof_def
      png_gray_1x1_text_def Skip_def type_IHDR_def type_IDAT_def type_IEND_def FromIdentifier_def
      IsAncillary_def)

lemma text_png_exhausts:
  "exhausts append_row \<lparr>data = png_gray_1x1_text, pos = 33\<rparr> st
     \<lparr>data = png_gray_1x1_text, pos = 47\<rparr> st"
  by (rule next_chunk [OF _ text_png_chunk at_end]) (simp_all add: eof_def png_gray_1x1_text_def)

lemma truncated_png_header:
  "ReadHeader \<lparr>data = png_gray_1x1_truncated, pos = 33\<rparr>
     = (Some (1000, FromIdentifier 116 69 88 116), \<lparr>data = png_gray_1x1_truncated, pos = 41\<rparr>)"
  by code_simp

theorem Parse_without_IEND_is_OK_witness:
  "check_signature png_signature \<lparr>data = png_gray_1x1_text, pos = 0\<rparr>
     = (png_OK, \<lparr>data = png_gray_1x1_text, pos = 8\<rparr>)
   \<and> ReadHeader \<lparr>data = png_gray_1x1_text, pos = 8\<rparr>
     = (Some (13, type_IHDR), \<lparr>data = png_gray_1x1_text, pos = 16\<rparr>)
   \<and> ParseImageHeader \<lparr>data = png_gray_1x1_text, pos = 16\<rparr>
     = (png_OK, Some gray8_1x1, \<lparr>data = png_gray_1x1_text, pos = 33\<rparr>)
   \<and> exhausts append_row \<lparr>data = png_gray_1x1_text, pos = 33\<rparr>
        (DecodeContext_init gray8_1x1, note_header gray8_1x1 [])
        \<lparr>data = png_gray_1x1_text, pos = 47\<rparr> (DecodeContext_init gray8_1x1, note_header gray8_1x1 [])
   \<and> Parse \<lparr>data = png_gray_1x1_text, pos = 0\<rparr> note_header append_row []
     = Some (png_OK, \<lparr>data = png_gray_1x1_text, pos = 47\<rparr>, note_header gray8_1x1 [])
   \<and> ReadHeader \<lparr>data = png_gray_1x1_truncated, pos = 33\<rparr>
     = (Some (1000, FromIdentifier 116 69 88 116), \<lparr>data = png_gray_1x1_truncated, pos = 41\<rparr>)
   \<and> IsAncillary (FromIdentifier 116 69 88 116)
   \<and> length png_gray_1x1_truncated = 43
   \<and> parse_chunks append_row \<lparr>data = png_gray_1x1_truncated, pos = 33\<rparr>
        (DecodeContext_init gray8_1x1, [])
     = Some (png_OK, \<lparr>data = png_gray_1x1_truncated, pos = 1045\<rparr>, DecodeContext_init gray8_1x1, [])"
proof -
  note t = Parse_without_IEND_is_OK [where imageHeaderFn = note_header and r = "[]",
      OF text_png_signature text_png_header text_png_ihdr
      text_png_exhausts [of "(DecodeContext_init gray8_1x1, note_header gray8_1x1 [])"]]
  have a: "IsAncillary (FromIdentifier 116 69 88 116)"
    by (simp add: IsAncillary_def FromIdentifier_def)
  have l: "length png_gray_1x1_truncated = 43" by (simp add: png_gray_1x1_truncated_def)
  have "length (data \<lparr>data = png_gray_1x1_truncated, pos = 41\<rparr>)
      \<le> pos \<lparr>data = png_gray_1x1_truncated, pos = 41\<rparr> + unat (1000 :: uint32) + 4"
    by (simp add: l)
  with t truncated_png_header a
  have "parse_chunks append_row \<lparr>data = png_gray_1x1_truncated, pos = 33\<rparr>
        (DecodeContext_init gray8_1x1, [])
     = Some (png_OK, Skip (unat (1000 :: uint32) + 4) \<lparr>data = png_gray_1x1_truncated, pos = 41\<rparr>,
             DecodeContext_init gray8_1x1, [])"
    by blast
  then have "parse_chunks append_row \<lparr>data = png_gray_1x1_truncated, pos = 33\<rparr>
        (DecodeContext_init gray8_1x1, [])
     = Some (png_OK, \<lparr>data = png_gray_1x1_truncated, pos = 1045\<rparr>, DecodeContext_init gray8_1x1, [])"
    by (simp add: Skip_def)
  with t text_png_signature text_png_header text_png_ihdr text_png_exhausts truncated_png_header a l
  show ?thesis by blast
qed

section \<open>Reading a Huffman code from the bit streamer\<close>






















lemma and_mask_mod: "x AND (push_bit L 1 - 1) = x mod 2 ^ L" for x :: int
  by (simp add: push_bit_eq_mult flip: mask_eq_exp_minus_1 take_bit_eq_mask take_bit_eq_mod)











section \<open>Runs on concrete streams\<close>

text \<open>
  Claim C1 asks that the block loop stops exactly when the final bit of the block is
  set. The stream below holds two stored blocks: the first has the final bit clear
  and holds the byte \<open>0x61\<close>, the second has it set and holds \<open>0x62\<close>. The decoder
  returns \<open>OK\<close> after the first block: one fragment is emitted and six of the twelve
  bytes are read.
\<close>

theorem Decompress_stops_after_first_block:
  "fst (the (GetDataBits 1 (BitStreamer_init two_stored_blocks))) = Some 0
   \<and> map_option (\<lambda>(r, bs, st). (r, byte_pos bs, st))
        (deflate_Decompress append_row (BitStreamer_init two_stored_blocks) [])
       = Some (deflate_OK, 6, [[0x61]])
   \<and> length two_stored_blocks = 12"
  by code_simp

text \<open>
  Claim C4 asks that the tally of \<open>BuildCodeTree\<close> stays inside \<open>bl_count\<close> for code
  lengths from 0 to 15. \<open>bl_count\<close> has \<open>MAX_BITS = 15\<close> entries, so the code length 15
  is counted outside it.
\<close>

theorem BuildCodeTree_length_15_out_of_bounds:
  "length (replicate (nat MAX_BITS) (0::int)) = 15
   \<and> tally [15] (replicate (nat MAX_BITS) 0, MAX_BITS + 1, - 1) = None
   \<and> BuildCodeTree [15] = None
   \<and> BuildCodeTree [1, 15] = None
   \<and> BuildCodeTree [1, 14] \<noteq> None"
  by code_simp

text \<open>
  Claim C7. \<open>mini_zlib::Decompress\<close> on the 19 bytes of the test \<open>Content_HelloWorld\<close>,
  with the length 19, returns \<open>OK\<close>, and the fragments it emits make up the 11 bytes
  of "hello world".
\<close>

theorem zlib_Decompress_hello_world:
  "length hello_zlib = 19
   \<and> (case zlib_Decompress \<lparr>data = hello_zlib, pos = 0\<rparr> 19 append_row [] of
        None \<Rightarrow> False
      | Some (res, s, fragments) \<Rightarrow>
          res = zlib_OK \<and> concat fragments = map of_char ''hello world''
          \<and> length (concat fragments) = 11)"
  by code_simp

lemma reserved_block_stream:
  "read_stream \<lparr>data = reserved_block_zlib, pos = 0\<rparr> 7
     = Inr ([0x07], 1, \<lparr>data = reserved_block_zlib, pos = 7\<rparr>)"
  by code_simp

lemma reserved_block_deflate:
  "deflate_Decompress (adler_callback append_row) (BitStreamer_init [0x07]) (initial_Adler32, [])
     = Some (InvalidBlockType,
             \<lparr>bits_data = [0x07], byte_pos = 1, bit_pos = 0, bit_buf = 0, bit_in_buf = 5\<rparr>, 1, [])"
  by code_simp

theorem zlib_Decompress_deflate_failure_witness:
  "read_stream \<lparr>data = reserved_block_zlib, pos = 0\<rparr> 7
     = Inr ([0x07], 1, \<lparr>data = reserved_block_zlib, pos = 7\<rparr>)
   \<and> deflate_Decompress (adler_callback append_row) (BitStreamer_init [0x07]) (initial_Adler32, [])
     = Some (InvalidBlockType,
             \<lparr>bits_data = [0x07], byte_pos = 1, bit_pos = 0, bit_buf = 0, bit_in_buf = 5\<rparr>, 1, [])
   \<and> InvalidBlockType \<noteq> deflate_OK
   \<and> zlib_Decompress \<lparr>data = reserved_block_zlib, pos = 0\<rparr> 7 append_row []
     = Some (ChecksumError, \<lparr>data = reserved_block_zlib, pos = 7\<rparr>, [])"
  using zlib_Decompress_deflate_failure [OF reserved_block_stream reserved_block_deflate]
    reserved_block_stream reserved_block_deflate
  by simp


end
